theory Spec2Isabelle
  imports
    Complex_Main
    "HOL-Library.Word"
    "HOL-Library.Char_ord"
    "HOL-Library.List_Lexorder"
    "HOL-Library.Multiset"
begin

section \<open>Data model of \<open>main final.cpp\<close>\<close>

text \<open>
  The four structs of the program. A \<open>std::string\<close> is a sequence of bytes, hence a
  \<^typ>\<open>string\<close>; a C++ \<open>int\<close> is a \<^typ>\<open>32 word\<close> (read as signed by \<open>sint\<close>; the
  program never computes with it). The \<open>double precio\<close> is only ever copied and
  printed, never compared or computed with, so its type is the parameter \<open>'d\<close>.
  \<open>Cliente\<close> is declared before \<open>Producto\<close> so that the plain name \<open>nombre\<close> is the
  field of \<open>Producto\<close>; the field of \<open>Cliente\<close> is written \<open>Cliente.nombre\<close>. The two
  \<open>id\<close> fields carry a suffix, since \<open>id\<close> is the identity function of HOL.
\<close>

record Cliente =
  id_cliente :: "32 word"
  nombre :: string

record Solicitud =
  id_solicitud :: "32 word"
  descripcion :: string

record 'd Producto =
  nombre :: string
  precio :: 'd
  cantidad :: "32 word"

record 'd Cambio =
  tipo :: string
  producto :: "'d Producto"

text \<open>
  The class \<open>SistemaGestion\<close>: four \<open>std::list\<close>s, front of the list first. A freshly
  constructed object (\<open>SistemaGestion sistema;\<close> in \<open>main\<close>) has the four lists empty.
\<close>

record 'd SistemaGestion =
  inventario :: "'d Producto list"
  solicitudes :: "Solicitud list"
  clientesEnEspera :: "Cliente list"
  historialCambios :: "'d Cambio list"

definition sistema_inicial :: "'d SistemaGestion" where
  "sistema_inicial =
     \<lparr>inventario = [], solicitudes = [], clientesEnEspera = [], historialCambios = []\<rparr>"

subsection \<open>Console output\<close>

text \<open>
  Every method writes lines to \<open>std::cout\<close>, each closed by \<open>std::endl\<close>. A line is the
  list of the values streamed into it with \<open><<\<close>: a string, a \<open>double\<close> or an \<open>int\<close>
  (the decimal rendering of the numbers is left to the stream and is not modelled).
  A method returns the lines it printed together with the updated object.
\<close>

datatype 'd ficha = Texto string | Doble 'd | Entero "32 word"

type_synonym 'd linea = "'d ficha list"

type_synonym 'd salida = "'d linea list"

subsection \<open>The two library calls on \<open>std::list\<close>\<close>

text \<open>
  An iterator into a list is the position it points at; \<open>end()\<close> is the length of the
  list. \<open>std::find_if\<close> returns the position of the first element satisfying the
  predicate, or \<open>end()\<close>; \<open>erase\<close> removes the element at a position.
\<close>

fun find_if :: "('a \<Rightarrow> bool) \<Rightarrow> 'a list \<Rightarrow> nat" where
  "find_if P [] = 0"
| "find_if P (x # xs) = (if P x then 0 else Suc (find_if P xs))"

definition erase :: "'a list \<Rightarrow> nat \<Rightarrow> 'a list" where
  "erase xs it = take it xs @ drop (Suc it) xs"

section \<open>Inventory methods\<close>

text \<open>\<open>SistemaGestion::registrarProducto\<close> (lines 70-74).\<close>

definition registrarProducto ::
  "'d Producto \<Rightarrow> 'd SistemaGestion \<Rightarrow> 'd salida \<times> 'd SistemaGestion" where
  "registrarProducto p s =
     (let s1 = s\<lparr>inventario := inventario s @ [p]\<rparr>;
          s2 = s1\<lparr>historialCambios :=
                    historialCambios s1 @ [\<lparr>tipo = ''agregar'', producto = p\<rparr>]\<rparr>
      in ([[Texto ''Producto agregado: '', Texto (nombre p)]], s2))"

text \<open>\<open>SistemaGestion::eliminarProducto\<close> (lines 77-91).\<close>

definition eliminarProducto ::
  "string \<Rightarrow> 'd SistemaGestion \<Rightarrow> 'd salida \<times> 'd SistemaGestion" where
  "eliminarProducto nombreProducto s =
     (let it = find_if (\<lambda>p. nombre p = nombreProducto) (inventario s) in
      if it \<noteq> length (inventario s) then
        let s1 = s\<lparr>historialCambios :=
                     historialCambios s @ [\<lparr>tipo = ''eliminar'', producto = inventario s ! it\<rparr>]\<rparr>;
            s2 = s1\<lparr>inventario := erase (inventario s1) it\<rparr>
        in ([[Texto ''Producto eliminado: '', Texto nombreProducto]], s2)
      else ([[Texto ''Producto no encontrado.'']], s))"

text \<open>\<open>SistemaGestion::consultarProducto\<close> (lines 94-106).\<close>

definition linea_producto :: "'d Producto \<Rightarrow> 'd linea" where
  "linea_producto p =
     [Texto ''Producto: '', Texto (nombre p), Texto '', Precio: '', Doble (precio p),
      Texto '', Cantidad: '', Entero (cantidad p)]"

definition consultarProducto ::
  "string \<Rightarrow> 'd SistemaGestion \<Rightarrow> 'd salida \<times> 'd SistemaGestion" where
  "consultarProducto nombreProducto s =
     (let it = find_if (\<lambda>p. nombre p = nombreProducto) (inventario s) in
      if it \<noteq> length (inventario s) then ([linea_producto (inventario s ! it)], s)
      else ([[Texto ''Producto no encontrado.'']], s))"

text \<open>
  \<open>SistemaGestion::listarProductos\<close> (lines 109-119). \<open>std::list::sort\<close> with the
  comparator \<open>a.nombre < b.nombre\<close> is a stable sort; \<open>operator<\<close> on \<open>std::string\<close>
  compares byte by byte as unsigned values, a proper prefix being smaller, which is
  the order of \<^typ>\<open>string\<close> here. The stable sorted arrangement of a list is unique,
  and \<^const>\<open>sort_key\<close> computes it.
\<close>

definition listarProductos :: "'d SistemaGestion \<Rightarrow> 'd salida \<times> 'd SistemaGestion" where
  "listarProductos s =
     (let s1 = s\<lparr>inventario := sort_key nombre (inventario s)\<rparr>
      in (map linea_producto (inventario s1), s1))"

section \<open>Request methods\<close>

text \<open>\<open>SistemaGestion::registrarSolicitud\<close> (lines 122-125).\<close>

definition registrarSolicitud ::
  "Solicitud \<Rightarrow> 'd SistemaGestion \<Rightarrow> 'd salida \<times> 'd SistemaGestion" where
  "registrarSolicitud solicitud s =
     ([[Texto ''Solicitud registrada: '', Texto (descripcion solicitud)]],
      s\<lparr>solicitudes := solicitudes s @ [solicitud]\<rparr>)"

text \<open>\<open>SistemaGestion::procesarSolicitud\<close> (lines 128-136).\<close>

definition procesarSolicitud :: "'d SistemaGestion \<Rightarrow> 'd salida \<times> 'd SistemaGestion" where
  "procesarSolicitud s =
     (case solicitudes s of
        solicitud # resto \<Rightarrow>
          ([[Texto ''Procesando solicitud: '', Texto (descripcion solicitud)]],
           s\<lparr>solicitudes := resto\<rparr>)
      | [] \<Rightarrow> ([[Texto ''No hay solicitudes pendientes.'']], s))"

text \<open>\<open>SistemaGestion::consultarSolicitudEnProceso\<close> (lines 139-146).\<close>

definition consultarSolicitudEnProceso ::
  "'d SistemaGestion \<Rightarrow> 'd salida \<times> 'd SistemaGestion" where
  "consultarSolicitudEnProceso s =
     (case solicitudes s of
        solicitud # resto \<Rightarrow>
          ([[Texto ''Solicitud en proceso: '', Texto (descripcion solicitud)]], s)
      | [] \<Rightarrow> ([[Texto ''No hay solicitudes en proceso.'']], s))"

text \<open>\<open>SistemaGestion::listarSolicitudesPendientes\<close> (lines 149-153).\<close>

definition listarSolicitudesPendientes ::
  "'d SistemaGestion \<Rightarrow> 'd salida \<times> 'd SistemaGestion" where
  "listarSolicitudesPendientes s =
     (map (\<lambda>solicitud. [Texto ''Solicitud pendiente: '', Texto (descripcion solicitud)])
        (solicitudes s), s)"

section \<open>Waiting-client methods\<close>

text \<open>\<open>SistemaGestion::registrarClienteEnEspera\<close> (lines 156-159).\<close>

definition registrarClienteEnEspera ::
  "Cliente \<Rightarrow> 'd SistemaGestion \<Rightarrow> 'd salida \<times> 'd SistemaGestion" where
  "registrarClienteEnEspera cliente s =
     ([[Texto ''Cliente registrado: '', Texto (Cliente.nombre cliente)]],
      s\<lparr>clientesEnEspera := clientesEnEspera s @ [cliente]\<rparr>)"

text \<open>\<open>SistemaGestion::atenderCliente\<close> (lines 162-170).\<close>

definition atenderCliente :: "'d SistemaGestion \<Rightarrow> 'd salida \<times> 'd SistemaGestion" where
  "atenderCliente s =
     (case clientesEnEspera s of
        cliente # resto \<Rightarrow>
          ([[Texto ''Atendiendo cliente: '', Texto (Cliente.nombre cliente)]],
           s\<lparr>clientesEnEspera := resto\<rparr>)
      | [] \<Rightarrow> ([[Texto ''No hay clientes en espera.'']], s))"

text \<open>\<open>SistemaGestion::consultarListaDeEspera\<close> (lines 173-177).\<close>

definition consultarListaDeEspera ::
  "'d SistemaGestion \<Rightarrow> 'd salida \<times> 'd SistemaGestion" where
  "consultarListaDeEspera s =
     (map (\<lambda>cliente. [Texto ''Cliente en espera: '', Texto (Cliente.nombre cliente)])
        (clientesEnEspera s), s)"

section \<open>Undo\<close>

text \<open>
  \<open>SistemaGestion::deshacerUltimaAccion\<close> (lines 180-202). The entry is copied and popped
  before its kind is looked at; an entry whose \<open>tipo\<close> is neither string falls through
  both branches.
\<close>

definition deshacerUltimaAccion ::
  "'d SistemaGestion \<Rightarrow> 'd salida \<times> 'd SistemaGestion" where
  "deshacerUltimaAccion s =
     (if historialCambios s \<noteq> [] then
        let cambio = last (historialCambios s);
            s1 = s\<lparr>historialCambios := butlast (historialCambios s)\<rparr>
        in
          if tipo cambio = ''agregar'' then
            let it = find_if (\<lambda>p. nombre p = nombre (producto cambio)) (inventario s1) in
            if it \<noteq> length (inventario s1) then
              ([[Texto ''Deshacer: Producto agregado eliminado: '',
                 Texto (nombre (producto cambio))]],
               s1\<lparr>inventario := erase (inventario s1) it\<rparr>)
            else ([], s1)
          else if tipo cambio = ''eliminar'' then
            ([[Texto ''Deshacer: Producto eliminado restaurado: '',
               Texto (nombre (producto cambio))]],
             s1\<lparr>inventario := inventario s1 @ [producto cambio]\<rparr>)
          else ([], s1)
      else ([[Texto ''No hay cambios para deshacer.'']], s))"

section \<open>The menu dispatch of \<open>main\<close>\<close>

text \<open>
  One constructor per case 1-12 of the \<open>switch\<close> in \<open>main\<close>, carrying what the case
  read from \<open>std::cin\<close>. \<open>ejecutar\<close> is the body of the case; \<open>ejecutar_todas\<close> runs a
  session, collecting the output.
\<close>

datatype 'd opcion =
    RegistrarProducto "'d Producto"
  | EliminarProducto string
  | ConsultarProducto string
  | ListarProductos
  | RegistrarSolicitud Solicitud
  | ProcesarSolicitud
  | ConsultarSolicitudEnProceso
  | ListarSolicitudesPendientes
  | RegistrarClienteEnEspera Cliente
  | AtenderCliente
  | ConsultarListaDeEspera
  | DeshacerUltimaAccion

fun ejecutar :: "'d opcion \<Rightarrow> 'd SistemaGestion \<Rightarrow> 'd salida \<times> 'd SistemaGestion" where
  "ejecutar (RegistrarProducto p) s = registrarProducto p s"
| "ejecutar (EliminarProducto n) s = eliminarProducto n s"
| "ejecutar (ConsultarProducto n) s = consultarProducto n s"
| "ejecutar ListarProductos s = listarProductos s"
| "ejecutar (RegistrarSolicitud r) s = registrarSolicitud r s"
| "ejecutar ProcesarSolicitud s = procesarSolicitud s"
| "ejecutar ConsultarSolicitudEnProceso s = consultarSolicitudEnProceso s"
| "ejecutar ListarSolicitudesPendientes s = listarSolicitudesPendientes s"
| "ejecutar (RegistrarClienteEnEspera c) s = registrarClienteEnEspera c s"
| "ejecutar AtenderCliente s = atenderCliente s"
| "ejecutar ConsultarListaDeEspera s = consultarListaDeEspera s"
| "ejecutar DeshacerUltimaAccion s = deshacerUltimaAccion s"

fun ejecutar_todas ::
  "'d opcion list \<Rightarrow> 'd SistemaGestion \<Rightarrow> 'd salida \<times> 'd SistemaGestion" where
  "ejecutar_todas [] s = ([], s)"
| "ejecutar_todas (op # ops) s =
     (let (out1, s1) = ejecutar op s; (out2, s2) = ejecutar_todas ops s1
      in (out1 @ out2, s2))"

section \<open>Bookkeeping for the history invariant\<close>

text \<open>
  Two measures used to state how the change history mirrors the inventory; they are
  not part of the program. \<open>cuenta n xs\<close> is the number of products named \<open>n\<close> in \<open>xs\<close>.
  \<open>saldo n h\<close> is the number of "agregar" entries for the name \<open>n\<close> in \<open>h\<close> minus the
  number of its "eliminar" entries. An object is \<open>coherente\<close> when, for every name, the
  inventory holds as many products as the history's balance says, and no prefix of
  the history has a negative balance.
\<close>

definition cuenta :: "string \<Rightarrow> 'd Producto list \<Rightarrow> nat" where
  "cuenta n xs = length (filter (\<lambda>p. nombre p = n) xs)"

fun saldo :: "string \<Rightarrow> 'd Cambio list \<Rightarrow> int" where
  "saldo n [] = 0"
| "saldo n (c # cs) =
     (if nombre (producto c) = n \<and> tipo c = ''agregar'' then 1
      else if nombre (producto c) = n \<and> tipo c = ''eliminar'' then - 1
      else 0) + saldo n cs"

definition coherente :: "'d SistemaGestion \<Rightarrow> bool" where
  "coherente s \<longleftrightarrow>
     (\<forall>n. int (cuenta n (inventario s)) = saldo n (historialCambios s)) \<and>
     (\<forall>n k. 0 \<le> saldo n (take k (historialCambios s)))"

section \<open>Example data\<close>

text \<open>
  Concrete products, requests and states on which the theorems below are instantiated;
  prices are given as reals.
\<close>

definition widget :: "real Producto" where
  "widget = \<lparr>nombre = ''Widget'', precio = 9.99, cantidad = 5\<rparr>"

definition apple :: "real Producto" where
  "apple = \<lparr>nombre = ''Apple'', precio = 1, cantidad = 1\<rparr>"

definition banana :: "real Producto" where
  "banana = \<lparr>nombre = ''Banana'', precio = 2, cantidad = 1\<rparr>"

definition apple2 :: "real Producto" where
  "apple2 = \<lparr>nombre = ''Apple'', precio = 3, cantidad = 7\<rparr>"

definition apple_min :: "real Producto" where
  "apple_min = \<lparr>nombre = ''apple'', precio = 4, cantidad = 2\<rparr>"

definition sol_a :: Solicitud where
  "sol_a = \<lparr>id_solicitud = 0, descripcion = ''two widgets''\<rparr>"

definition sol_b :: Solicitud where
  "sol_b = \<lparr>id_solicitud = 0, descripcion = ''one gadget''\<rparr>"

definition solo_widget :: "real SistemaGestion" where
  "solo_widget =
     \<lparr>inventario = [widget], solicitudes = [], clientesEnEspera = [], historialCambios = []\<rparr>"

text \<open>Two products named Apple, the second one registered last.\<close>

definition dos_apples :: "real SistemaGestion" where
  "dos_apples =
     \<lparr>inventario = [apple, banana, apple2], solicitudes = [], clientesEnEspera = [],
      historialCambios = [\<lparr>tipo = ''agregar'', producto = apple2\<rparr>]\<rparr>"

text \<open>A history whose last entry names a product that is not in the inventory.\<close>

definition sin_apple :: "real SistemaGestion" where
  "sin_apple =
     \<lparr>inventario = [banana], solicitudes = [], clientesEnEspera = [],
      historialCambios = [\<lparr>tipo = ''agregar'', producto = apple\<rparr>]\<rparr>"

text \<open>A session of the menu: five registrations, then one removal.\<close>

definition sesion_productos :: "real opcion list" where
  "sesion_productos =
     [RegistrarProducto widget, RegistrarProducto apple_min, RegistrarProducto banana,
      RegistrarProducto apple, RegistrarProducto apple2, EliminarProducto ''Widget'']"

section \<open>Facts about \<open>find_if\<close> and \<open>erase\<close>\<close>

lemma find_if_le: "find_if P xs \<le> length xs"
  by (induction xs) auto

lemma find_if_end_iff: "find_if P xs = length xs \<longleftrightarrow> (\<forall>x \<in> set xs. \<not> P x)"
proof (induction xs)
  case Nil
  show ?case by simp
next
  case (Cons x xs)
  have "find_if P xs \<le> length xs" by (rule find_if_le)
  with Cons show ?case by auto
qed

lemma find_if_holds: "find_if P xs \<noteq> length xs \<Longrightarrow> P (xs ! find_if P xs)"
  by (induction xs) (auto split: if_splits)

lemma find_if_first: "j < find_if P xs \<Longrightarrow> \<not> P (xs ! j)"
proof (induction xs arbitrary: j)
  case Nil
  then show ?case by simp
next
  case (Cons x xs)
  then show ?case by (cases j) (auto split: if_splits)
qed

lemma find_if_append_hit: "P x \<Longrightarrow> find_if P (xs @ [x]) < length (xs @ [x])"
  by (induction xs) auto

lemma length_erase: "it < length xs \<Longrightarrow> length (erase xs it) = length xs - 1"
  by (auto simp: erase_def)

lemma mset_erase: "it < length xs \<Longrightarrow> add_mset (xs ! it) (mset (erase xs it)) = mset xs"
proof -
  assume h: "it < length xs"
  have "xs = take it xs @ (xs ! it) # drop (Suc it) xs"
    using h by (simp add: id_take_nth_drop)
  then have "mset xs = mset (take it xs @ (xs ! it) # drop (Suc it) xs)"
    by simp
  then show ?thesis
    by (simp add: erase_def)
qed

lemma find_if_split:
  "find_if P xs \<noteq> length xs \<Longrightarrow>
     \<exists>pre q post. xs = pre @ q # post \<and> P q \<and> (\<forall>x \<in> set pre. \<not> P x) \<and>
       xs ! find_if P xs = q \<and> erase xs (find_if P xs) = pre @ post"
proof -
  let ?i = "find_if P xs"
  assume h: "?i \<noteq> length xs"
  have lt: "?i < length xs" using h find_if_le [of P xs] by simp
  have a: "xs = take ?i xs @ (xs ! ?i) # drop (Suc ?i) xs"
    using lt by (simp add: id_take_nth_drop)
  have b: "P (xs ! ?i)" using h by (rule find_if_holds)
  have c: "\<forall>x \<in> set (take ?i xs). \<not> P x"
  proof
    fix x assume "x \<in> set (take ?i xs)"
    then obtain j where j: "j < length (take ?i xs)" "take ?i xs ! j = x"
      by (auto simp: in_set_conv_nth)
    then have "j < ?i" by simp
    then have "\<not> P (xs ! j)" by (rule find_if_first)
    with j show "\<not> P x" by simp
  qed
  have d: "erase xs ?i = take ?i xs @ drop (Suc ?i) xs" by (simp add: erase_def)
  from a b c d show ?thesis by blast
qed

lemma find_if_find:
  "find P xs = (if find_if P xs \<noteq> length xs then Some (xs ! find_if P xs) else None)"
proof (induction xs)
  case Nil
  show ?case by simp
next
  case (Cons x xs)
  have "find_if P xs \<le> length xs" by (rule find_if_le)
  with Cons show ?case by auto
qed

lemma find_if_append_miss:
  "\<forall>x \<in> set xs. \<not> P x \<Longrightarrow> find_if P (xs @ ys) = length xs + find_if P ys"
  by (induction xs) auto

lemma erase_last: "erase (xs @ [x]) (length xs) = xs"
  by (simp add: erase_def)

lemma set_erase_subset: "set (erase xs it) \<subseteq> set xs"
proof -
  have "set (take it xs) \<subseteq> set xs" by (rule set_take_subset)
  moreover have "set (drop (Suc it) xs) \<subseteq> set xs" by (rule set_drop_subset)
  ultimately show ?thesis by (simp add: erase_def)
qed

section \<open>Registering and removing products\<close>

text \<open>
  Claim C6. \<open>registrarProducto\<close> has no failing branch: in every state and for every
  product \<open>p\<close> it prints the confirmation line, appends \<open>p\<close> at the end of the
  inventory and the entry \<open>{"agregar", p}\<close> at the end of the change history, so both
  lengths grow by exactly one; the two queues are untouched.
\<close>

theorem registrarProducto_appends:
  "fst (registrarProducto p s) = [[Texto ''Producto agregado: '', Texto (nombre p)]] \<and>
   inventario (snd (registrarProducto p s)) = inventario s @ [p] \<and>
   historialCambios (snd (registrarProducto p s)) =
     historialCambios s @ [\<lparr>tipo = ''agregar'', producto = p\<rparr>] \<and>
   solicitudes (snd (registrarProducto p s)) = solicitudes s \<and>
   clientesEnEspera (snd (registrarProducto p s)) = clientesEnEspera s \<and>
   length (inventario (snd (registrarProducto p s))) = length (inventario s) + 1 \<and>
   length (historialCambios (snd (registrarProducto p s))) = length (historialCambios s) + 1"
  by (simp add: registrarProducto_def Let_def)

text \<open>
  Claim C7. When no product of the inventory has the name \<open>n\<close>, \<open>eliminarProducto n\<close>
  prints "Producto no encontrado." and returns the object as it was: the inventory
  keeps its contents and the change history receives no entry.
\<close>

theorem eliminarProducto_no_encontrado:
  "\<forall>p \<in> set (inventario s). nombre p \<noteq> n \<Longrightarrow>
     eliminarProducto n s = ([[Texto ''Producto no encontrado.'']], s)"
proof -
  assume "\<forall>p \<in> set (inventario s). nombre p \<noteq> n"
  then have "find_if (\<lambda>p. nombre p = n) (inventario s) = length (inventario s)"
    by (simp add: find_if_end_iff)
  then show ?thesis by (simp add: eliminarProducto_def)
qed

theorem eliminarProducto_no_encontrado_witness:
  "''Gadget'' \<notin> set (map nombre (inventario solo_widget)) \<and>
   eliminarProducto ''Gadget'' solo_widget = ([[Texto ''Producto no encontrado.'']], solo_widget)"
  using eliminarProducto_no_encontrado [of solo_widget "''Gadget''"]
  by (simp add: solo_widget_def widget_def)

section \<open>Undo\<close>

text \<open>
  Claim C5. With an empty change history, \<open>deshacerUltimaAccion\<close> prints
  "No hay cambios para deshacer." and returns the object as it was: inventory, both
  queues and the history are unchanged.
\<close>

theorem deshacer_historial_vacio:
  "historialCambios s = [] \<Longrightarrow>
     deshacerUltimaAccion s = ([[Texto ''No hay cambios para deshacer.'']], s)"
  by (simp add: deshacerUltimaAccion_def)

theorem deshacer_historial_vacio_witness:
  "historialCambios solo_widget = [] \<and>
   deshacerUltimaAccion solo_widget = ([[Texto ''No hay cambios para deshacer.'']], solo_widget)"
  using deshacer_historial_vacio [of solo_widget]
  by (simp add: solo_widget_def)

text \<open>
  Claim C4. When the history is not empty and its last entry \<open>E\<close> has \<open>tipo = "agregar"\<close>,
  \<open>deshacerUltimaAccion\<close> pops \<open>E\<close> and leaves both queues alone. If some product of the
  inventory has the name of \<open>E\<close>'s product, the inventory splits as \<open>pre @ q # post\<close>
  with \<open>q\<close> the first product of that name, and the new inventory is \<open>pre @ post\<close>;
  the undo line is printed. If no product has that name, nothing is printed and the
  only change to the object is the popped entry.
\<close>

theorem deshacer_agregar:
  assumes "historialCambios s \<noteq> []"
      and "tipo (last (historialCambios s)) = ''agregar''"
  shows
    "historialCambios (snd (deshacerUltimaAccion s)) = butlast (historialCambios s) \<and>
     solicitudes (snd (deshacerUltimaAccion s)) = solicitudes s \<and>
     clientesEnEspera (snd (deshacerUltimaAccion s)) = clientesEnEspera s \<and>
     (if \<exists>q \<in> set (inventario s). nombre q = nombre (producto (last (historialCambios s)))
      then \<exists>pre q post.
             inventario s = pre @ q # post \<and>
             nombre q = nombre (producto (last (historialCambios s))) \<and>
             (\<forall>x \<in> set pre. nombre x \<noteq> nombre (producto (last (historialCambios s)))) \<and>
             inventario (snd (deshacerUltimaAccion s)) = pre @ post \<and>
             fst (deshacerUltimaAccion s) =
               [[Texto ''Deshacer: Producto agregado eliminado: '',
                 Texto (nombre (producto (last (historialCambios s))))]]
      else deshacerUltimaAccion s =
             ([], s\<lparr>historialCambios := butlast (historialCambios s)\<rparr>))"
proof -
  let ?n = "nombre (producto (last (historialCambios s)))"
  let ?it = "find_if (\<lambda>p. nombre p = ?n) (inventario s)"
  show ?thesis
  proof (cases "?it = length (inventario s)")
    case True
    then have "\<not> (\<exists>q \<in> set (inventario s). nombre q = ?n)"
      by (simp add: find_if_end_iff)
    with True assms show ?thesis
      by (simp add: deshacerUltimaAccion_def Let_def)
  next
    case False
    then have ex: "\<exists>q \<in> set (inventario s). nombre q = ?n"
      by (simp add: find_if_end_iff)
    from find_if_split [OF False]
    obtain pre q post where sp: "inventario s = pre @ q # post" "nombre q = ?n"
      "\<forall>x \<in> set pre. nombre x \<noteq> ?n" "erase (inventario s) ?it = pre @ post"
      by blast
    have run: "deshacerUltimaAccion s =
        ([[Texto ''Deshacer: Producto agregado eliminado: '', Texto ?n]],
         s\<lparr>historialCambios := butlast (historialCambios s),
            inventario := erase (inventario s) ?it\<rparr>)"
      using False assms by (simp add: deshacerUltimaAccion_def Let_def)
    have "\<exists>pre q post.
             inventario s = pre @ q # post \<and> nombre q = ?n \<and>
             (\<forall>x \<in> set pre. nombre x \<noteq> ?n) \<and>
             inventario (snd (deshacerUltimaAccion s)) = pre @ post \<and>
             fst (deshacerUltimaAccion s) =
               [[Texto ''Deshacer: Producto agregado eliminado: '', Texto ?n]]"
      using sp run by auto
    with ex run show ?thesis by simp
  qed
qed

theorem deshacer_agregar_witness:
  "historialCambios dos_apples \<noteq> [] \<and>
   tipo (last (historialCambios dos_apples)) = ''agregar'' \<and>
   deshacerUltimaAccion dos_apples =
     ([[Texto ''Deshacer: Producto agregado eliminado: '', Texto ''Apple'']],
      dos_apples\<lparr>inventario := [banana, apple2], historialCambios := []\<rparr>) \<and>
   historialCambios sin_apple \<noteq> [] \<and>
   tipo (last (historialCambios sin_apple)) = ''agregar'' \<and>
   ''Apple'' \<notin> set (map nombre (inventario sin_apple)) \<and>
   deshacerUltimaAccion sin_apple = ([], sin_apple\<lparr>historialCambios := []\<rparr>)"
  using deshacer_agregar [of dos_apples] deshacer_agregar [of sin_apple]
  by (simp add: deshacerUltimaAccion_def erase_def dos_apples_def sin_apple_def
      apple_def apple2_def banana_def)

text \<open>
  Claim C1. In every state and for every product \<open>p\<close>, \<open>registrarProducto p\<close> followed by
  \<open>deshacerUltimaAccion\<close> prints the undo line for \<open>p\<close>'s name, erases the first product
  of the inventory (with \<open>p\<close> appended) that has \<open>p\<close>'s name, brings the number of
  products back to what it was, and leaves the change history as it was before the
  registration. When no earlier product has \<open>p\<close>'s name the whole object is back to
  what it was.
\<close>

theorem registrar_deshacer:
  "let s1 = snd (registrarProducto p s);
       r = deshacerUltimaAccion s1;
       s2 = snd r
   in fst r = [[Texto ''Deshacer: Producto agregado eliminado: '', Texto (nombre p)]] \<and>
      (\<exists>pre q post.
          inventario s @ [p] = pre @ q # post \<and> nombre q = nombre p \<and>
          (\<forall>x \<in> set pre. nombre x \<noteq> nombre p) \<and> inventario s2 = pre @ post) \<and>
      length (inventario s2) = length (inventario s) \<and>
      historialCambios s2 = historialCambios s \<and>
      solicitudes s2 = solicitudes s \<and>
      clientesEnEspera s2 = clientesEnEspera s \<and>
      ((\<forall>x \<in> set (inventario s). nombre x \<noteq> nombre p) \<longrightarrow> s2 = s)"
proof -
  let ?P = "\<lambda>q. nombre q = nombre p"
  let ?inv = "inventario s @ [p]"
  let ?it = "find_if ?P ?inv"
  define s1 where "s1 = snd (registrarProducto p s)"
  have s1: "s1 = s\<lparr>inventario := ?inv,
                    historialCambios := historialCambios s @ [\<lparr>tipo = ''agregar'', producto = p\<rparr>]\<rparr>"
    by (simp add: s1_def registrarProducto_def Let_def)
  have lt: "?it < length ?inv"
    by (rule find_if_append_hit) simp
  then have ne: "?it \<noteq> length ?inv" by simp
  have run: "deshacerUltimaAccion s1 =
      ([[Texto ''Deshacer: Producto agregado eliminado: '', Texto (nombre p)]],
       s\<lparr>inventario := erase ?inv ?it, historialCambios := historialCambios s\<rparr>)"
    using ne by (simp add: s1 deshacerUltimaAccion_def Let_def)
  from find_if_split [OF ne]
  obtain pre q post where sp: "?inv = pre @ q # post" "nombre q = nombre p"
    "\<forall>x \<in> set pre. nombre x \<noteq> nombre p" "erase ?inv ?it = pre @ post"
    by blast
  have a: "\<exists>pre q post.
          ?inv = pre @ q # post \<and> nombre q = nombre p \<and>
          (\<forall>x \<in> set pre. nombre x \<noteq> nombre p) \<and>
          inventario (snd (deshacerUltimaAccion s1)) = pre @ post"
    using sp run by auto
  have b: "length (inventario (snd (deshacerUltimaAccion s1))) = length (inventario s)"
    using lt by (simp add: run length_erase)
  have c: "(\<forall>x \<in> set (inventario s). nombre x \<noteq> nombre p) \<longrightarrow>
             snd (deshacerUltimaAccion s1) = s"
  proof
    assume "\<forall>x \<in> set (inventario s). nombre x \<noteq> nombre p"
    then have "?it = length (inventario s)"
      by (simp add: find_if_append_miss)
    then have "erase ?inv ?it = inventario s"
      by (simp add: erase_last)
    then show "snd (deshacerUltimaAccion s1) = s"
      by (simp add: run)
  qed
  from a b c run show ?thesis
    unfolding Let_def s1_def [symmetric] by simp
qed

theorem registrar_deshacer_witness:
  "''Apple'' \<notin> set (map nombre (inventario solo_widget)) \<and>
   snd (deshacerUltimaAccion (snd (registrarProducto apple2 solo_widget))) = solo_widget \<and>
   inventario (snd (deshacerUltimaAccion (snd (registrarProducto apple2 dos_apples)))) =
     [banana, apple2, apple2] \<and>
   historialCambios (snd (deshacerUltimaAccion (snd (registrarProducto apple2 dos_apples)))) =
     historialCambios dos_apples"
  using registrar_deshacer [of apple2 solo_widget] registrar_deshacer [of apple2 dos_apples]
  by (simp add: Let_def registrarProducto_def deshacerUltimaAccion_def erase_def
      solo_widget_def dos_apples_def widget_def apple_def apple2_def banana_def)

text \<open>
  Claim C2. When some product has the name \<open>n\<close>, \<open>eliminarProducto n\<close> followed by
  \<open>deshacerUltimaAccion\<close> takes the first product \<open>q\<close> of that name out of the inventory,
  logs it whole, and then appends that same \<open>q\<close> (name, price and quantity) at the end
  of the inventory. The number of products and the multiset of products are what they
  were, so any other product named \<open>n\<close> is still there beside \<open>q\<close>; the change history
  is back to what it was.
\<close>

theorem eliminar_deshacer:
  assumes "\<exists>q \<in> set (inventario s). nombre q = n"
  shows
    "let r1 = eliminarProducto n s;
         s1 = snd r1;
         r2 = deshacerUltimaAccion s1;
         s2 = snd r2
     in fst r1 = [[Texto ''Producto eliminado: '', Texto n]] \<and>
        fst r2 = [[Texto ''Deshacer: Producto eliminado restaurado: '', Texto n]] \<and>
        (\<exists>pre q post.
            inventario s = pre @ q # post \<and> nombre q = n \<and>
            (\<forall>x \<in> set pre. nombre x \<noteq> n) \<and>
            inventario s1 = pre @ post \<and>
            historialCambios s1 =
              historialCambios s @ [\<lparr>tipo = ''eliminar'', producto = q\<rparr>] \<and>
            inventario s2 = pre @ post @ [q]) \<and>
        length (inventario s2) = length (inventario s) \<and>
        mset (inventario s2) = mset (inventario s) \<and>
        historialCambios s2 = historialCambios s \<and>
        solicitudes s2 = solicitudes s \<and>
        clientesEnEspera s2 = clientesEnEspera s"
proof -
  let ?P = "\<lambda>q. nombre q = n"
  let ?it = "find_if ?P (inventario s)"
  have ne: "?it \<noteq> length (inventario s)"
    using assms by (simp add: find_if_end_iff)
  from find_if_split [OF ne]
  obtain pre q post where sp: "inventario s = pre @ q # post" "nombre q = n"
    "\<forall>x \<in> set pre. nombre x \<noteq> n" "inventario s ! ?it = q"
    "erase (inventario s) ?it = pre @ post"
    by blast
  define s1 where "s1 = snd (eliminarProducto n s)"
  have r1: "eliminarProducto n s =
      ([[Texto ''Producto eliminado: '', Texto n]],
       s\<lparr>historialCambios := historialCambios s @ [\<lparr>tipo = ''eliminar'', producto = q\<rparr>],
          inventario := pre @ post\<rparr>)"
    using ne sp(4,5) by (simp add: eliminarProducto_def Let_def)
  then have s1: "s1 = s\<lparr>historialCambios :=
                           historialCambios s @ [\<lparr>tipo = ''eliminar'', producto = q\<rparr>],
                         inventario := pre @ post\<rparr>"
    by (simp add: s1_def)
  have r2: "deshacerUltimaAccion s1 =
      ([[Texto ''Deshacer: Producto eliminado restaurado: '', Texto n]],
       s\<lparr>historialCambios := historialCambios s, inventario := pre @ post @ [q]\<rparr>)"
    using sp(2) by (simp add: s1 deshacerUltimaAccion_def Let_def)
  have a: "\<exists>pre q post.
            inventario s = pre @ q # post \<and> nombre q = n \<and>
            (\<forall>x \<in> set pre. nombre x \<noteq> n) \<and>
            inventario s1 = pre @ post \<and>
            historialCambios s1 =
              historialCambios s @ [\<lparr>tipo = ''eliminar'', producto = q\<rparr>] \<and>
            inventario (snd (deshacerUltimaAccion s1)) = pre @ post @ [q]"
    using sp(1,2,3) s1 r2 by auto
  have b: "length (inventario (snd (deshacerUltimaAccion s1))) = length (inventario s)"
    by (simp add: r2 sp(1))
  have c: "mset (inventario (snd (deshacerUltimaAccion s1))) = mset (inventario s)"
    by (simp add: r2 sp(1))
  have d: "fst (eliminarProducto n s) = [[Texto ''Producto eliminado: '', Texto n]]"
    by (simp add: r1)
  from a b c d r2 show ?thesis
    unfolding Let_def s1_def [symmetric] by simp
qed

theorem eliminar_deshacer_witness:
  "''Apple'' \<in> set (map nombre (inventario dos_apples)) \<and>
   inventario (snd (eliminarProducto ''Apple'' dos_apples)) = [banana, apple2] \<and>
   inventario (snd (deshacerUltimaAccion (snd (eliminarProducto ''Apple'' dos_apples)))) =
     [banana, apple2, apple] \<and>
   historialCambios (snd (deshacerUltimaAccion (snd (eliminarProducto ''Apple'' dos_apples)))) =
     historialCambios dos_apples"
  using eliminar_deshacer [of dos_apples "''Apple''"]
  by (simp add: Let_def eliminarProducto_def deshacerUltimaAccion_def erase_def
      dos_apples_def apple_def apple2_def banana_def)

section \<open>Listing products\<close>

text \<open>
  Whatever algorithm \<open>std::list::sort\<close> runs, a result that is a rearrangement of the
  list, sorted by name, with products of equal name in their original order, is the
  list \<^const>\<open>sort_key\<close> computes.
\<close>

lemma orden_estable_unico:
  assumes "mset ys = mset xs"
      and "sorted (map nombre ys)"
      and "\<forall>k. filter (\<lambda>p. nombre p = k) ys = filter (\<lambda>p. nombre p = k) xs"
  shows "sort_key nombre xs = ys"
proof (rule properties_for_sort_key)
  show "mset ys = mset xs" by (rule assms(1))
  show "sorted (map nombre ys)" by (rule assms(2))
  fix k
  have "filter (\<lambda>p. nombre p = nombre k) ys = filter (\<lambda>p. nombre p = nombre k) xs"
    using assms(3) by simp
  then show "filter (\<lambda>x. nombre k = nombre x) ys = filter (\<lambda>x. nombre k = nombre x) xs"
    by (simp add: eq_commute)
qed

text \<open>
  Claim C8. In every state, hence in every state reached by registrations and removals,
  \<open>listarProductos\<close> prints one line per product, in the order in which it leaves the
  inventory; the line is "Producto: ", the name, ", Precio: ", the price,
  ", Cantidad: " and the quantity of that product. That order is non-decreasing in the name, under the byte-wise order of
  strings in which every upper-case letter precedes every lower-case one; products of
  equal name keep their relative order; the multiset of products is unchanged. The
  sorted order is what the object stores afterwards: listing again changes nothing
  more. Queues and history are untouched.
\<close>

theorem listarProductos_ordenado:
  "let r = listarProductos s; s' = snd r
   in fst r =
        map (\<lambda>p. [Texto ''Producto: '', Texto (nombre p), Texto '', Precio: '',
                   Doble (precio p), Texto '', Cantidad: '', Entero (cantidad p)])
          (sort_key nombre (inventario s)) \<and>
      fst r = map linea_producto (inventario s') \<and>
      sorted (map nombre (inventario s')) \<and>
      mset (inventario s') = mset (inventario s) \<and>
      (\<forall>k. filter (\<lambda>p. nombre p = k) (inventario s') =
            filter (\<lambda>p. nombre p = k) (inventario s)) \<and>
      inventario s' = sort_key nombre (inventario s) \<and>
      snd (listarProductos s') = s' \<and>
      solicitudes s' = solicitudes s \<and>
      clientesEnEspera s' = clientesEnEspera s \<and>
      historialCambios s' = historialCambios s"
proof -
  let ?xs = "sort_key nombre (inventario s)"
  have r: "listarProductos s = (map linea_producto ?xs, s\<lparr>inventario := ?xs\<rparr>)"
    by (simp add: listarProductos_def Let_def)
  have so: "sorted (map nombre ?xs)" by (rule sorted_sort_key)
  have ms: "mset ?xs = mset (inventario s)" by simp
  have st: "\<forall>k. filter (\<lambda>p. nombre p = k) ?xs = filter (\<lambda>p. nombre p = k) (inventario s)"
    by (simp add: sort_key_stable)
  have "sort_key nombre ?xs = ?xs"
    using so by (rule sort_key_id_if_sorted)
  then have idem: "snd (listarProductos (s\<lparr>inventario := ?xs\<rparr>)) = s\<lparr>inventario := ?xs\<rparr>"
    by (simp add: listarProductos_def Let_def)
  have ln: "map linea_producto ?xs =
        map (\<lambda>p. [Texto ''Producto: '', Texto (nombre p), Texto '', Precio: '',
                   Doble (precio p), Texto '', Cantidad: '', Entero (cantidad p)]) ?xs"
    by (simp add: linea_producto_def)
  from so ms st idem ln show ?thesis
    unfolding Let_def r by simp
qed

theorem listarProductos_ordenado_witness:
  "inventario (snd (ejecutar_todas sesion_productos sistema_inicial)) =
     [apple_min, banana, apple, apple2] \<and>
   inventario (snd (listarProductos (snd (ejecutar_todas sesion_productos sistema_inicial)))) =
     [apple, apple2, banana, apple_min] \<and>
   map nombre (inventario
      (snd (listarProductos (snd (ejecutar_todas sesion_productos sistema_inicial))))) =
     [''Apple'', ''Apple'', ''Banana'', ''apple''] \<and>
   sorted [''Apple'', ''Apple'', ''Banana'', ''apple''] \<and>
   fst (listarProductos (snd (ejecutar_todas sesion_productos sistema_inicial))) =
     [[Texto ''Producto: '', Texto ''Apple'', Texto '', Precio: '', Doble 1,
       Texto '', Cantidad: '', Entero 1],
      [Texto ''Producto: '', Texto ''Apple'', Texto '', Precio: '', Doble 3,
       Texto '', Cantidad: '', Entero 7],
      [Texto ''Producto: '', Texto ''Banana'', Texto '', Precio: '', Doble 2,
       Texto '', Cantidad: '', Entero 1],
      [Texto ''Producto: '', Texto ''apple'', Texto '', Precio: '', Doble 4,
       Texto '', Cantidad: '', Entero 2]]"
  using listarProductos_ordenado [of "snd (ejecutar_todas sesion_productos sistema_inicial)"]
  by (simp add: Let_def listarProductos_def linea_producto_def sesion_productos_def
      sistema_inicial_def registrarProducto_def eliminarProducto_def erase_def
      widget_def apple_def apple2_def banana_def apple_min_def
      less_eq_char_def less_char_def)

section \<open>The request queue\<close>

lemma procesar_todas:
  "ejecutar_todas (replicate (length (solicitudes s)) ProcesarSolicitud) s =
     (map (\<lambda>r. [Texto ''Procesando solicitud: '', Texto (descripcion r)]) (solicitudes s),
      s\<lparr>solicitudes := []\<rparr>)"
proof (induction "solicitudes s" arbitrary: s)
  case Nil
  then show ?case by simp
next
  case (Cons r rs)
  from Cons(2) have eq: "solicitudes s = r # rs" by simp
  have step: "procesarSolicitud s =
      ([[Texto ''Procesando solicitud: '', Texto (descripcion r)]], s\<lparr>solicitudes := rs\<rparr>)"
    by (simp add: procesarSolicitud_def eq)
  have "rs = solicitudes (s\<lparr>solicitudes := rs\<rparr>)" by simp
  from Cons(1) [OF this]
  have ih: "ejecutar_todas (replicate (length rs) ProcesarSolicitud) (s\<lparr>solicitudes := rs\<rparr>) =
      (map (\<lambda>r. [Texto ''Procesando solicitud: '', Texto (descripcion r)]) rs,
       s\<lparr>solicitudes := []\<rparr>)"
    by simp
  show ?case
    by (simp add: eq step ih)
qed

text \<open>
  Claim C9. On an empty queue \<open>procesarSolicitud\<close> prints "No hay solicitudes
  pendientes." and returns the object as it was. On a non-empty queue it prints the
  description of the front request and removes exactly that request, so the queue is
  one shorter. Starting from an empty queue, after registering \<open>a\<close> and then \<open>b\<close> it is
  \<open>a\<close> that is processed and \<open>b\<close> that remains. From any queue, processing until the queue
  is empty prints the earlier requests, then \<open>a\<close>, then \<open>b\<close>.
\<close>

theorem procesarSolicitud_fifo:
  "(solicitudes s = [] \<longrightarrow>
      procesarSolicitud s = ([[Texto ''No hay solicitudes pendientes.'']], s)) \<and>
   (solicitudes s \<noteq> [] \<longrightarrow>
      procesarSolicitud s =
        ([[Texto ''Procesando solicitud: '', Texto (descripcion (hd (solicitudes s)))]],
         s\<lparr>solicitudes := tl (solicitudes s)\<rparr>) \<and>
      length (solicitudes (snd (procesarSolicitud s))) = length (solicitudes s) - 1 \<and>
      hd (solicitudes s) # solicitudes (snd (procesarSolicitud s)) = solicitudes s) \<and>
   (solicitudes s = [] \<longrightarrow>
      procesarSolicitud (snd (registrarSolicitud b (snd (registrarSolicitud a s)))) =
        ([[Texto ''Procesando solicitud: '', Texto (descripcion a)]], s\<lparr>solicitudes := [b]\<rparr>)) \<and>
   fst (ejecutar_todas
          (replicate (length (solicitudes s) + 2) ProcesarSolicitud)
          (snd (registrarSolicitud b (snd (registrarSolicitud a s))))) =
     map (\<lambda>r. [Texto ''Procesando solicitud: '', Texto (descripcion r)])
       (solicitudes s @ [a, b])"
proof -
  have e: "solicitudes s = [] \<longrightarrow>
      procesarSolicitud s = ([[Texto ''No hay solicitudes pendientes.'']], s)"
    by (simp add: procesarSolicitud_def)
  have n: "solicitudes s \<noteq> [] \<longrightarrow>
      procesarSolicitud s =
        ([[Texto ''Procesando solicitud: '', Texto (descripcion (hd (solicitudes s)))]],
         s\<lparr>solicitudes := tl (solicitudes s)\<rparr>) \<and>
      length (solicitudes (snd (procesarSolicitud s))) = length (solicitudes s) - 1 \<and>
      hd (solicitudes s) # solicitudes (snd (procesarSolicitud s)) = solicitudes s"
    by (cases "solicitudes s") (simp_all add: procesarSolicitud_def)
  have f: "solicitudes s = [] \<longrightarrow>
      procesarSolicitud (snd (registrarSolicitud b (snd (registrarSolicitud a s)))) =
        ([[Texto ''Procesando solicitud: '', Texto (descripcion a)]], s\<lparr>solicitudes := [b]\<rparr>)"
    by (simp add: procesarSolicitud_def registrarSolicitud_def)
  let ?s2 = "snd (registrarSolicitud b (snd (registrarSolicitud a s)))"
  have q: "solicitudes ?s2 = solicitudes s @ [a, b]"
    by (simp add: registrarSolicitud_def)
  have len: "length (solicitudes s) + 2 = length (solicitudes ?s2)"
    by (simp add: q)
  have g: "fst (ejecutar_todas
          (replicate (length (solicitudes s) + 2) ProcesarSolicitud) ?s2) =
     map (\<lambda>r. [Texto ''Procesando solicitud: '', Texto (descripcion r)])
       (solicitudes s @ [a, b])"
    by (subst len, subst procesar_todas, simp add: q)
  from e n f g show ?thesis by blast
qed

theorem procesarSolicitud_fifo_witness:
  "solicitudes solo_widget = [] \<and>
   procesarSolicitud solo_widget = ([[Texto ''No hay solicitudes pendientes.'']], solo_widget) \<and>
   solicitudes (snd (registrarSolicitud sol_a solo_widget)) \<noteq> [] \<and>
   procesarSolicitud (snd (registrarSolicitud sol_b (snd (registrarSolicitud sol_a solo_widget)))) =
     ([[Texto ''Procesando solicitud: '', Texto ''two widgets'']],
      solo_widget\<lparr>solicitudes := [sol_b]\<rparr>) \<and>
   procesarSolicitud (snd (registrarSolicitud sol_a solo_widget)) =
     ([[Texto ''Procesando solicitud: '', Texto ''two widgets'']], solo_widget)"
  using procesarSolicitud_fifo [where s = solo_widget and a = sol_a and b = sol_b]
    procesarSolicitud_fifo [where s = "snd (registrarSolicitud sol_a solo_widget)"]
  by (simp add: registrarSolicitud_def solo_widget_def sol_a_def sol_b_def)

section \<open>Isolation of the subsystems\<close>

lemma frame_solicitudes:
  "inventario (snd (registrarSolicitud r s)) = inventario s \<and>
   historialCambios (snd (registrarSolicitud r s)) = historialCambios s \<and>
   clientesEnEspera (snd (registrarSolicitud r s)) = clientesEnEspera s \<and>
   inventario (snd (procesarSolicitud s)) = inventario s \<and>
   historialCambios (snd (procesarSolicitud s)) = historialCambios s \<and>
   clientesEnEspera (snd (procesarSolicitud s)) = clientesEnEspera s \<and>
   snd (consultarSolicitudEnProceso s) = s \<and>
   snd (listarSolicitudesPendientes s) = s"
  by (simp add: registrarSolicitud_def procesarSolicitud_def consultarSolicitudEnProceso_def
      listarSolicitudesPendientes_def split: list.split)

lemma frame_clientes:
  "inventario (snd (registrarClienteEnEspera c s)) = inventario s \<and>
   historialCambios (snd (registrarClienteEnEspera c s)) = historialCambios s \<and>
   solicitudes (snd (registrarClienteEnEspera c s)) = solicitudes s \<and>
   inventario (snd (atenderCliente s)) = inventario s \<and>
   historialCambios (snd (atenderCliente s)) = historialCambios s \<and>
   solicitudes (snd (atenderCliente s)) = solicitudes s \<and>
   snd (consultarListaDeEspera s) = s"
  by (simp add: registrarClienteEnEspera_def atenderCliente_def consultarListaDeEspera_def
      split: list.split)

lemma frame_inventario:
  "solicitudes (snd (registrarProducto p s)) = solicitudes s \<and>
   clientesEnEspera (snd (registrarProducto p s)) = clientesEnEspera s \<and>
   solicitudes (snd (eliminarProducto n s)) = solicitudes s \<and>
   clientesEnEspera (snd (eliminarProducto n s)) = clientesEnEspera s \<and>
   snd (consultarProducto n s) = s \<and>
   solicitudes (snd (listarProductos s)) = solicitudes s \<and>
   clientesEnEspera (snd (listarProductos s)) = clientesEnEspera s"
  by (simp add: registrarProducto_def eliminarProducto_def consultarProducto_def
      listarProductos_def Let_def)

lemma frame_deshacer:
  "solicitudes (snd (deshacerUltimaAccion s)) = solicitudes s \<and>
   clientesEnEspera (snd (deshacerUltimaAccion s)) = clientesEnEspera s"
  by (simp add: deshacerUltimaAccion_def Let_def)

text \<open>
  Claim C10. The request methods and the waiting-client methods leave the inventory and
  the change history as they were (and each leaves the other queue alone); the product
  methods and the undo leave both queues as they were. \<open>atenderCliente\<close> on an empty
  waiting list prints "No hay clientes en espera." and changes nothing.
\<close>

theorem subsistemas_aislados:
  "(inventario (snd (registrarSolicitud r s)) = inventario s \<and>
    historialCambios (snd (registrarSolicitud r s)) = historialCambios s \<and>
    clientesEnEspera (snd (registrarSolicitud r s)) = clientesEnEspera s \<and>
    inventario (snd (procesarSolicitud s)) = inventario s \<and>
    historialCambios (snd (procesarSolicitud s)) = historialCambios s \<and>
    clientesEnEspera (snd (procesarSolicitud s)) = clientesEnEspera s \<and>
    snd (consultarSolicitudEnProceso s) = s \<and>
    snd (listarSolicitudesPendientes s) = s) \<and>
   (inventario (snd (registrarClienteEnEspera c s)) = inventario s \<and>
    historialCambios (snd (registrarClienteEnEspera c s)) = historialCambios s \<and>
    solicitudes (snd (registrarClienteEnEspera c s)) = solicitudes s \<and>
    inventario (snd (atenderCliente s)) = inventario s \<and>
    historialCambios (snd (atenderCliente s)) = historialCambios s \<and>
    solicitudes (snd (atenderCliente s)) = solicitudes s \<and>
    snd (consultarListaDeEspera s) = s) \<and>
   (solicitudes (snd (registrarProducto p s)) = solicitudes s \<and>
    clientesEnEspera (snd (registrarProducto p s)) = clientesEnEspera s \<and>
    solicitudes (snd (eliminarProducto n s)) = solicitudes s \<and>
    clientesEnEspera (snd (eliminarProducto n s)) = clientesEnEspera s \<and>
    snd (consultarProducto n s) = s \<and>
    solicitudes (snd (listarProductos s)) = solicitudes s \<and>
    clientesEnEspera (snd (listarProductos s)) = clientesEnEspera s) \<and>
   (solicitudes (snd (deshacerUltimaAccion s)) = solicitudes s \<and>
    clientesEnEspera (snd (deshacerUltimaAccion s)) = clientesEnEspera s) \<and>
   (clientesEnEspera s = [] \<longrightarrow>
      atenderCliente s = ([[Texto ''No hay clientes en espera.'']], s))"
proof -
  have "clientesEnEspera s = [] \<longrightarrow>
      atenderCliente s = ([[Texto ''No hay clientes en espera.'']], s)"
    by (simp add: atenderCliente_def)
  with frame_solicitudes [of r s] frame_clientes [of c s] frame_inventario [of p s n]
    frame_deshacer [of s]
  show ?thesis by blast
qed

theorem subsistemas_aislados_witness:
  "clientesEnEspera dos_apples = [] \<and>
   atenderCliente dos_apples = ([[Texto ''No hay clientes en espera.'']], dos_apples)"
  using subsistemas_aislados [where s = dos_apples]
  by (simp add: dos_apples_def)

section \<open>The change history along a session\<close>

lemma historial_paso:
  "historialCambios (snd (ejecutar op s)) =
     (case op of
        RegistrarProducto p \<Rightarrow>
          historialCambios s @ [\<lparr>tipo = ''agregar'', producto = p\<rparr>]
      | EliminarProducto n \<Rightarrow>
          (case find (\<lambda>q. nombre q = n) (inventario s) of
             Some q \<Rightarrow> historialCambios s @ [\<lparr>tipo = ''eliminar'', producto = q\<rparr>]
           | None \<Rightarrow> historialCambios s)
      | DeshacerUltimaAccion \<Rightarrow> butlast (historialCambios s)
      | _ \<Rightarrow> historialCambios s)"
proof (cases op)
  case (RegistrarProducto p)
  then show ?thesis by (simp add: registrarProducto_def Let_def)
next
  case (EliminarProducto n)
  then show ?thesis by (simp add: eliminarProducto_def Let_def find_if_find)
next
  case DeshacerUltimaAccion
  then show ?thesis by (simp add: deshacerUltimaAccion_def Let_def)
next
  case ListarProductos
  then show ?thesis by (simp add: listarProductos_def Let_def)
next
  case (ConsultarProducto n)
  then show ?thesis by (simp add: consultarProducto_def Let_def)
next
  case (RegistrarSolicitud r)
  then show ?thesis by (simp add: registrarSolicitud_def)
next
  case ProcesarSolicitud
  then show ?thesis by (simp add: procesarSolicitud_def split: list.split)
next
  case ConsultarSolicitudEnProceso
  then show ?thesis by (simp add: consultarSolicitudEnProceso_def split: list.split)
next
  case ListarSolicitudesPendientes
  then show ?thesis by (simp add: listarSolicitudesPendientes_def)
next
  case (RegistrarClienteEnEspera c)
  then show ?thesis by (simp add: registrarClienteEnEspera_def)
next
  case AtenderCliente
  then show ?thesis by (simp add: atenderCliente_def split: list.split)
next
  case ConsultarListaDeEspera
  then show ?thesis by (simp add: consultarListaDeEspera_def)
qed

text \<open>Where the products of the inventory after one step come from.\<close>

lemma inventario_paso:
  "set (inventario (snd (ejecutar op s))) \<subseteq>
     set (inventario s) \<union> producto ` set (historialCambios s) \<union>
     (case op of RegistrarProducto p \<Rightarrow> {p} | _ \<Rightarrow> {})"
proof (cases op)
  case (RegistrarProducto p)
  then show ?thesis by (auto simp: registrarProducto_def Let_def)
next
  case (EliminarProducto n)
  then show ?thesis
    using set_erase_subset [of "inventario s"]
    by (auto simp: eliminarProducto_def Let_def)
next
  case DeshacerUltimaAccion
  have "historialCambios s \<noteq> [] \<Longrightarrow> last (historialCambios s) \<in> set (historialCambios s)"
    by simp
  with DeshacerUltimaAccion show ?thesis
    using set_erase_subset [of "inventario s"]
    by (auto simp: deshacerUltimaAccion_def Let_def)
next
  case ListarProductos
  then show ?thesis by (simp add: listarProductos_def Let_def)
next
  case (ConsultarProducto n)
  then show ?thesis by (simp add: consultarProducto_def Let_def)
next
  case (RegistrarSolicitud r)
  then show ?thesis by (simp add: registrarSolicitud_def)
next
  case ProcesarSolicitud
  then show ?thesis by (simp add: procesarSolicitud_def split: list.split)
next
  case ConsultarSolicitudEnProceso
  then show ?thesis by (simp add: consultarSolicitudEnProceso_def split: list.split)
next
  case ListarSolicitudesPendientes
  then show ?thesis by (simp add: listarSolicitudesPendientes_def)
next
  case (RegistrarClienteEnEspera c)
  then show ?thesis by (simp add: registrarClienteEnEspera_def)
next
  case AtenderCliente
  then show ?thesis by (simp add: atenderCliente_def split: list.split)
next
  case ConsultarListaDeEspera
  then show ?thesis by (simp add: consultarListaDeEspera_def)
qed

lemma historial_paso_origen:
  assumes inv: "\<forall>p \<in> set (inventario s). RegistrarProducto p \<in> A"
      and his: "\<forall>c \<in> set (historialCambios s).
                 (tipo c = ''agregar'' \<or> tipo c = ''eliminar'') \<and>
                 RegistrarProducto (producto c) \<in> A \<and>
                 (tipo c = ''eliminar'' \<longrightarrow> EliminarProducto (nombre (producto c)) \<in> A)"
  shows "(\<forall>p \<in> set (inventario (snd (ejecutar op s))). RegistrarProducto p \<in> insert op A) \<and>
         (\<forall>c \<in> set (historialCambios (snd (ejecutar op s))).
            (tipo c = ''agregar'' \<or> tipo c = ''eliminar'') \<and>
            RegistrarProducto (producto c) \<in> insert op A \<and>
            (tipo c = ''eliminar'' \<longrightarrow>
               EliminarProducto (nombre (producto c)) \<in> insert op A))"
proof (rule conjI; rule ballI)
  fix p assume "p \<in> set (inventario (snd (ejecutar op s)))"
  with inventario_paso [of op s]
  have "p \<in> set (inventario s) \<or> p \<in> producto ` set (historialCambios s) \<or>
        op = RegistrarProducto p"
    by (cases op) auto
  with inv his show "RegistrarProducto p \<in> insert op A" by auto
next
  fix c assume c: "c \<in> set (historialCambios (snd (ejecutar op s)))"
  have "c \<in> set (historialCambios s) \<or>
        (\<exists>p. op = RegistrarProducto p \<and> c = \<lparr>tipo = ''agregar'', producto = p\<rparr>) \<or>
        (\<exists>q \<in> set (inventario s). op = EliminarProducto (nombre q) \<and>
               c = \<lparr>tipo = ''eliminar'', producto = q\<rparr>)"
  proof (cases op)
    case (RegistrarProducto p)
    with c historial_paso [of op s] show ?thesis by auto
  next
    case (EliminarProducto n)
    show ?thesis
    proof (cases "find (\<lambda>q. nombre q = n) (inventario s)")
      case None
      with c EliminarProducto historial_paso [of op s] show ?thesis by simp
    next
      case (Some q)
      then have "q \<in> set (inventario s)" "nombre q = n"
        by (auto simp: find_Some_iff)
      with c Some EliminarProducto historial_paso [of op s] show ?thesis by auto
    qed
  next
    case DeshacerUltimaAccion
    with c historial_paso [of op s] have "c \<in> set (butlast (historialCambios s))" by simp
    then show ?thesis by (auto dest: in_set_butlastD)
  qed (use c historial_paso [of op s] in simp_all)
  with inv his
  show "(tipo c = ''agregar'' \<or> tipo c = ''eliminar'') \<and>
        RegistrarProducto (producto c) \<in> insert op A \<and>
        (tipo c = ''eliminar'' \<longrightarrow> EliminarProducto (nombre (producto c)) \<in> insert op A)"
    by auto
qed

lemma historial_origen:
  assumes "\<forall>p \<in> set (inventario s). RegistrarProducto p \<in> A"
      and "\<forall>c \<in> set (historialCambios s).
                 (tipo c = ''agregar'' \<or> tipo c = ''eliminar'') \<and>
                 RegistrarProducto (producto c) \<in> A \<and>
                 (tipo c = ''eliminar'' \<longrightarrow> EliminarProducto (nombre (producto c)) \<in> A)"
  shows "(\<forall>p \<in> set (inventario (snd (ejecutar_todas ops s))).
            RegistrarProducto p \<in> A \<union> set ops) \<and>
         (\<forall>c \<in> set (historialCambios (snd (ejecutar_todas ops s))).
            (tipo c = ''agregar'' \<or> tipo c = ''eliminar'') \<and>
            RegistrarProducto (producto c) \<in> A \<union> set ops \<and>
            (tipo c = ''eliminar'' \<longrightarrow>
               EliminarProducto (nombre (producto c)) \<in> A \<union> set ops))"
  using assms
proof (induction ops arbitrary: s A)
  case Nil
  then show ?case by simp
next
  case (Cons op ops)
  let ?s1 = "snd (ejecutar op s)"
  from historial_paso_origen [OF Cons.prems, of op]
  have a: "\<forall>p \<in> set (inventario ?s1). RegistrarProducto p \<in> insert op A"
    and b: "\<forall>c \<in> set (historialCambios ?s1).
            (tipo c = ''agregar'' \<or> tipo c = ''eliminar'') \<and>
            RegistrarProducto (producto c) \<in> insert op A \<and>
            (tipo c = ''eliminar'' \<longrightarrow>
               EliminarProducto (nombre (producto c)) \<in> insert op A)"
    by blast+
  have eq: "snd (ejecutar_todas (op # ops) s) = snd (ejecutar_todas ops ?s1)"
    by (simp add: Let_def split: prod.split)
  have un: "insert op A \<union> set ops = A \<union> set (op # ops)" by auto
  from Cons.IH [OF a b] show ?case
    unfolding eq un .
qed

text \<open>
  Claim C3. After any session \<open>ops\<close> started on a fresh object, every entry of the change
  history has \<open>tipo\<close> "agregar" or "eliminar"; its product was registered during the
  session, and for an "eliminar" entry the session contains the removal of that name.
  In any state, one menu option changes the history in one of three ways only:
  a registration appends \<open>{"agregar", p}\<close>; a removal that finds a product \<open>q\<close> appends
  \<open>{"eliminar", q}\<close>; the undo drops the last entry. Every other option, and a removal
  that finds nothing, leaves the history as it is.
\<close>

theorem historial_invariante:
  "(\<forall>c \<in> set (historialCambios (snd (ejecutar_todas ops sistema_inicial))).
      (tipo c = ''agregar'' \<or> tipo c = ''eliminar'') \<and>
      RegistrarProducto (producto c) \<in> set ops \<and>
      (tipo c = ''eliminar'' \<longrightarrow> EliminarProducto (nombre (producto c)) \<in> set ops)) \<and>
   historialCambios (snd (ejecutar op s)) =
     (case op of
        RegistrarProducto p \<Rightarrow>
          historialCambios s @ [\<lparr>tipo = ''agregar'', producto = p\<rparr>]
      | EliminarProducto n \<Rightarrow>
          (case find (\<lambda>q. nombre q = n) (inventario s) of
             Some q \<Rightarrow> historialCambios s @ [\<lparr>tipo = ''eliminar'', producto = q\<rparr>]
           | None \<Rightarrow> historialCambios s)
      | DeshacerUltimaAccion \<Rightarrow> butlast (historialCambios s)
      | _ \<Rightarrow> historialCambios s)"
proof -
  have "\<forall>p \<in> set (inventario (sistema_inicial :: 'a SistemaGestion)).
          RegistrarProducto p \<in> ({} :: 'a opcion set)"
    by (simp add: sistema_inicial_def)
  moreover have "\<forall>c \<in> set (historialCambios (sistema_inicial :: 'a SistemaGestion)).
      (tipo c = ''agregar'' \<or> tipo c = ''eliminar'') \<and>
      RegistrarProducto (producto c) \<in> ({} :: 'a opcion set) \<and>
      (tipo c = ''eliminar'' \<longrightarrow> EliminarProducto (nombre (producto c)) \<in> {})"
    by (simp add: sistema_inicial_def)
  ultimately have "\<forall>c \<in> set (historialCambios (snd (ejecutar_todas ops sistema_inicial))).
      (tipo c = ''agregar'' \<or> tipo c = ''eliminar'') \<and>
      RegistrarProducto (producto c) \<in> {} \<union> set ops \<and>
      (tipo c = ''eliminar'' \<longrightarrow> EliminarProducto (nombre (producto c)) \<in> {} \<union> set ops)"
    using historial_origen [of sistema_inicial "{}" ops] by blast
  then show ?thesis
    using historial_paso [of op s] by simp
qed

theorem historial_invariante_witness:
  "historialCambios (snd (ejecutar_todas sesion_productos sistema_inicial)) =
     [\<lparr>tipo = ''agregar'', producto = widget\<rparr>, \<lparr>tipo = ''agregar'', producto = apple_min\<rparr>,
      \<lparr>tipo = ''agregar'', producto = banana\<rparr>, \<lparr>tipo = ''agregar'', producto = apple\<rparr>,
      \<lparr>tipo = ''agregar'', producto = apple2\<rparr>, \<lparr>tipo = ''eliminar'', producto = widget\<rparr>] \<and>
   RegistrarProducto widget \<in> set sesion_productos \<and>
   EliminarProducto ''Widget'' \<in> set sesion_productos \<and>
   historialCambios (snd (ejecutar DeshacerUltimaAccion
       (snd (ejecutar_todas sesion_productos sistema_inicial)))) =
     [\<lparr>tipo = ''agregar'', producto = widget\<rparr>, \<lparr>tipo = ''agregar'', producto = apple_min\<rparr>,
      \<lparr>tipo = ''agregar'', producto = banana\<rparr>, \<lparr>tipo = ''agregar'', producto = apple\<rparr>,
      \<lparr>tipo = ''agregar'', producto = apple2\<rparr>]"
  using historial_invariante [where ops = sesion_productos and op = DeshacerUltimaAccion
      and s = "snd (ejecutar_todas sesion_productos sistema_inicial)"]
  by (simp add: Let_def sesion_productos_def sistema_inicial_def
      registrarProducto_def eliminarProducto_def deshacerUltimaAccion_def erase_def
      widget_def apple_def apple2_def banana_def apple_min_def)

section \<open>The history mirrors the inventory\<close>

lemma saldo_append: "saldo n (xs @ ys) = saldo n xs + saldo n ys"
  by (induction xs) auto

lemma cuenta_append: "cuenta n (xs @ ys) = cuenta n xs + cuenta n ys"
  by (simp add: cuenta_def)

lemma cuenta_mset: "cuenta n xs = size (filter_mset (\<lambda>p. nombre p = n) (mset xs))"
  by (simp add: cuenta_def flip: mset_filter)

lemma cuenta_sort_key: "cuenta n (sort_key f xs) = cuenta n xs"
  by (simp add: cuenta_mset)

lemma cuenta_pos: "0 < cuenta n xs \<Longrightarrow> \<exists>q \<in> set xs. nombre q = n"
proof -
  assume "0 < cuenta n xs"
  then have "filter (\<lambda>p. nombre p = n) xs \<noteq> []" by (auto simp: cuenta_def)
  then show ?thesis by (auto simp: filter_empty_conv)
qed

lemma coherente_ultimo_agregar:
  assumes co: "coherente s"
      and ne: "historialCambios s \<noteq> []"
      and ag: "tipo (last (historialCambios s)) = ''agregar''"
  shows "\<exists>q \<in> set (inventario s). nombre q = nombre (producto (last (historialCambios s)))"
proof -
  let ?h = "historialCambios s"
  let ?n = "nombre (producto (last ?h))"
  have sp: "?h = butlast ?h @ [last ?h]" using ne by simp
  have "saldo ?n ?h = saldo ?n (butlast ?h @ [last ?h])" using sp by simp
  also have "\<dots> = saldo ?n (butlast ?h) + 1" using ag by (simp add: saldo_append)
  finally have eq: "saldo ?n ?h = saldo ?n (butlast ?h) + 1" .
  have "0 \<le> saldo ?n (take (length ?h - 1) ?h)"
    using co by (simp add: coherente_def)
  then have "0 \<le> saldo ?n (butlast ?h)" by (simp add: butlast_conv_take)
  with eq have "0 < saldo ?n ?h" by simp
  moreover have "int (cuenta ?n (inventario s)) = saldo ?n ?h"
    using co by (simp add: coherente_def)
  ultimately have "0 < int (cuenta ?n (inventario s))" by simp
  then have "0 < cuenta ?n (inventario s)" by simp
  then show ?thesis by (rule cuenta_pos)
qed

lemma coherente_inicial: "coherente sistema_inicial"
  by (simp add: coherente_def sistema_inicial_def cuenta_def)

lemma coherente_snoc:
  assumes co: "coherente s"
      and i1: "\<forall>n. int (cuenta n inv') = saldo n (historialCambios s @ [c])"
  shows "coherente (s\<lparr>historialCambios := historialCambios s @ [c], inventario := inv'\<rparr>)"
proof -
  have "0 \<le> saldo n (take k (historialCambios s @ [c]))" for n k
  proof (cases "k \<le> length (historialCambios s)")
    case True
    then show ?thesis using co by (simp add: coherente_def)
  next
    case False
    then have "saldo n (take k (historialCambios s @ [c])) = saldo n (historialCambios s @ [c])"
      by simp
    also have "\<dots> = int (cuenta n inv')" using i1 by simp
    finally show ?thesis by simp
  qed
  with i1 show ?thesis by (simp add: coherente_def)
qed

lemma coherente_butlast:
  assumes co: "coherente s"
      and i1: "\<forall>n. int (cuenta n inv') = saldo n (butlast (historialCambios s))"
  shows "coherente (s\<lparr>historialCambios := butlast (historialCambios s), inventario := inv'\<rparr>)"
proof -
  have "0 \<le> saldo n (take k (butlast (historialCambios s)))" for n k
  proof -
    have "take k (butlast (historialCambios s)) =
          take (min k (length (historialCambios s) - 1)) (historialCambios s)"
      by (simp add: butlast_conv_take min.commute)
    then show ?thesis using co by (simp add: coherente_def)
  qed
  with i1 show ?thesis by (simp add: coherente_def)
qed

lemma cuenta_quitar:
  "int (cuenta n (pre @ post)) =
     int (cuenta n (pre @ q # post)) - (if nombre q = n then 1 else 0)"
  by (simp add: cuenta_def)

lemma saldo_butlast:
  "h \<noteq> [] \<Longrightarrow> saldo n (butlast h) = saldo n h - saldo n [last h]"
proof -
  assume "h \<noteq> []"
  then have "saldo n h = saldo n (butlast h @ [last h])" by simp
  then show ?thesis by (simp only: saldo_append)
qed

lemma coherente_registrar: "coherente s \<Longrightarrow> coherente (snd (registrarProducto p s))"
proof -
  assume co: "coherente s"
  have r: "snd (registrarProducto p s) =
      s\<lparr>historialCambios := historialCambios s @ [\<lparr>tipo = ''agregar'', producto = p\<rparr>],
        inventario := inventario s @ [p]\<rparr>"
    by (simp add: registrarProducto_def Let_def)
  have "\<forall>n. int (cuenta n (inventario s @ [p])) =
             saldo n (historialCambios s @ [\<lparr>tipo = ''agregar'', producto = p\<rparr>])"
    using co by (simp add: coherente_def cuenta_append saldo_append cuenta_def)
  with co show ?thesis unfolding r by (rule coherente_snoc)
qed

lemma coherente_eliminar: "coherente s \<Longrightarrow> coherente (snd (eliminarProducto m s))"
proof -
  assume co: "coherente s"
  let ?it = "find_if (\<lambda>p. nombre p = m) (inventario s)"
  show ?thesis
  proof (cases "?it = length (inventario s)")
    case True
    then show ?thesis using co by (simp add: eliminarProducto_def)
  next
    case False
    from find_if_split [OF False]
    obtain pre q post where sp: "inventario s = pre @ q # post" "nombre q = m"
      "inventario s ! ?it = q" "erase (inventario s) ?it = pre @ post"
      by blast
    have r: "snd (eliminarProducto m s) =
        s\<lparr>historialCambios := historialCambios s @ [\<lparr>tipo = ''eliminar'', producto = q\<rparr>],
          inventario := pre @ post\<rparr>"
      using False sp(3,4) by (simp add: eliminarProducto_def Let_def)
    have "\<forall>n. int (cuenta n (pre @ post)) =
               saldo n (historialCambios s @ [\<lparr>tipo = ''eliminar'', producto = q\<rparr>])"
    proof
      fix n
      have "int (cuenta n (inventario s)) = saldo n (historialCambios s)"
        using co by (simp add: coherente_def)
      then show "int (cuenta n (pre @ post)) =
               saldo n (historialCambios s @ [\<lparr>tipo = ''eliminar'', producto = q\<rparr>])"
        by (simp add: cuenta_quitar [of n pre post q] sp(1) saldo_append)
    qed
    with co show ?thesis unfolding r by (rule coherente_snoc)
  qed
qed

lemma coherente_deshacer: "coherente s \<Longrightarrow> coherente (snd (deshacerUltimaAccion s))"
proof -
  assume co: "coherente s"
  let ?h = "historialCambios s"
  let ?c = "last ?h"
  let ?n0 = "nombre (producto ?c)"
  let ?it = "find_if (\<lambda>p. nombre p = ?n0) (inventario s)"
  have i1: "int (cuenta n (inventario s)) = saldo n ?h" for n
    using co by (simp add: coherente_def)
  show ?thesis
  proof (cases "?h = []")
    case True
    then show ?thesis using co by (simp add: deshacerUltimaAccion_def)
  next
    case ne: False
    show ?thesis
    proof (cases "tipo ?c = ''agregar''")
      case ag: True
      from coherente_ultimo_agregar [OF co ne ag]
      have nf: "?it \<noteq> length (inventario s)" by (simp add: find_if_end_iff)
      from find_if_split [OF nf]
      obtain pre q post where sp: "inventario s = pre @ q # post" "nombre q = ?n0"
        "erase (inventario s) ?it = pre @ post"
        by blast
      have r: "snd (deshacerUltimaAccion s) =
          s\<lparr>historialCambios := butlast ?h, inventario := pre @ post\<rparr>"
        using ne ag nf sp(3) by (simp add: deshacerUltimaAccion_def Let_def)
      have "\<forall>n. int (cuenta n (pre @ post)) = saldo n (butlast ?h)"
      proof
        fix n
        show "int (cuenta n (pre @ post)) = saldo n (butlast ?h)"
          using i1 [of n] ag
          by (simp add: cuenta_quitar [of n pre post q] sp(1,2) saldo_butlast [OF ne])
      qed
      with co show ?thesis unfolding r by (rule coherente_butlast)
    next
      case nag: False
      show ?thesis
      proof (cases "tipo ?c = ''eliminar''")
        case el: True
        have r: "snd (deshacerUltimaAccion s) =
            s\<lparr>historialCambios := butlast ?h, inventario := inventario s @ [producto ?c]\<rparr>"
          using ne el by (simp add: deshacerUltimaAccion_def Let_def)
        have "\<forall>n. int (cuenta n (inventario s @ [producto ?c])) = saldo n (butlast ?h)"
        proof
          fix n
          show "int (cuenta n (inventario s @ [producto ?c])) = saldo n (butlast ?h)"
            using i1 [of n] el
            by (simp add: cuenta_append saldo_butlast [OF ne] cuenta_def)
        qed
        with co show ?thesis unfolding r by (rule coherente_butlast)
      next
        case nel: False
        have r: "snd (deshacerUltimaAccion s) =
            s\<lparr>historialCambios := butlast ?h, inventario := inventario s\<rparr>"
          using ne nag nel by (simp add: deshacerUltimaAccion_def Let_def)
        have "\<forall>n. int (cuenta n (inventario s)) = saldo n (butlast ?h)"
          using i1 nag nel by (simp add: saldo_butlast [OF ne])
        with co show ?thesis unfolding r by (rule coherente_butlast)
      qed
    qed
  qed
qed

lemma coherente_paso: "coherente s \<Longrightarrow> coherente (snd (ejecutar op s))"
proof (cases op)
  case (RegistrarProducto p)
  assume "coherente s"
  with RegistrarProducto show ?thesis by (simp add: coherente_registrar)
next
  case (EliminarProducto n)
  assume "coherente s"
  with EliminarProducto show ?thesis by (simp add: coherente_eliminar)
next
  case DeshacerUltimaAccion
  assume "coherente s"
  with DeshacerUltimaAccion show ?thesis by (simp add: coherente_deshacer)
next
  case ListarProductos
  assume "coherente s"
  with ListarProductos show ?thesis
    by (simp add: listarProductos_def Let_def coherente_def cuenta_sort_key)
next
  case (ConsultarProducto n)
  assume "coherente s"
  with ConsultarProducto show ?thesis by (simp add: consultarProducto_def Let_def)
next
  case (RegistrarSolicitud r)
  assume "coherente s"
  with RegistrarSolicitud show ?thesis by (simp add: registrarSolicitud_def coherente_def)
next
  case ProcesarSolicitud
  assume "coherente s"
  with ProcesarSolicitud show ?thesis
    by (simp add: procesarSolicitud_def coherente_def split: list.split)
next
  case ConsultarSolicitudEnProceso
  assume "coherente s"
  with ConsultarSolicitudEnProceso show ?thesis
    by (simp add: consultarSolicitudEnProceso_def split: list.split)
next
  case ListarSolicitudesPendientes
  assume "coherente s"
  with ListarSolicitudesPendientes show ?thesis by (simp add: listarSolicitudesPendientes_def)
next
  case (RegistrarClienteEnEspera c)
  assume "coherente s"
  with RegistrarClienteEnEspera show ?thesis
    by (simp add: registrarClienteEnEspera_def coherente_def)
next
  case AtenderCliente
  assume "coherente s"
  with AtenderCliente show ?thesis
    by (simp add: atenderCliente_def coherente_def split: list.split)
next
  case ConsultarListaDeEspera
  assume "coherente s"
  with ConsultarListaDeEspera show ?thesis by (simp add: consultarListaDeEspera_def)
qed

lemma coherente_todas: "coherente s \<Longrightarrow> coherente (snd (ejecutar_todas ops s))"
proof (induction ops arbitrary: s)
  case Nil
  then show ?case by simp
next
  case (Cons op ops)
  have "snd (ejecutar_todas (op # ops) s) = snd (ejecutar_todas ops (snd (ejecutar op s)))"
    by (simp add: Let_def split: prod.split)
  with Cons show ?case by (simp add: coherente_paso)
qed

text \<open>
  After any session started on a fresh object, when the last entry of the history is an
  "agregar" entry, a product of that name is in the inventory: from such a state the
  undo of a registration always finds a product to erase.
\<close>

lemma ultimo_agregar_presente:
  assumes "s = snd (ejecutar_todas ops sistema_inicial)"
      and "historialCambios s \<noteq> []"
      and "tipo (last (historialCambios s)) = ''agregar''"
  shows "\<exists>q \<in> set (inventario s). nombre q = nombre (producto (last (historialCambios s)))"
proof -
  have "coherente s"
    unfolding assms(1) by (rule coherente_todas) (rule coherente_inicial)
  from coherente_ultimo_agregar [OF this assms(2,3)] show ?thesis .
qed

end
